theory Spec2Isabelle
  imports Main "HOL-Library.Word" "HOL-Library.Multiset"
begin

unbundle bit_operations_syntax

section \<open>Scene-state snapshots: class SurfaceFlinger::State\<close>

text \<open>
  \<^verbatim>\<open>LayerVector::StateSet\<close> as SurfaceFlinger.h uses it: the default member initialiser
  names \<^verbatim>\<open>Invalid\<close>, the two members \<^verbatim>\<open>mCurrentState\<close> and \<^verbatim>\<open>mDrawingState\<close> name
  \<^verbatim>\<open>Current\<close> and \<^verbatim>\<open>Drawing\<close>.
\<close>

datatype StateSet = Invalid | Current | Drawing

text \<open>
  The five data members of \<^verbatim>\<open>State\<close>. The element type of the layer vector, the key and
  value types of the \<^verbatim>\<open>DefaultKeyedVector\<close> and \<^verbatim>\<open>mat4\<close> are declared in other headers and
  are type parameters here; the layer vector is kept as the sequence of its elements and
  the keyed vector as a finite map.
\<close>

record ('layer, 'token, 'dds, 'mat) State =
  stateSet :: StateSet
  layersSortedByZ :: "'layer list"
  displays :: "'token \<rightharpoonup> 'dds"
  colorMatrixChanged :: bool
  colorMatrix :: 'mat

text \<open>
  \<^verbatim>\<open>explicit State(LayerVector::StateSet set) : stateSet(set), layersSortedByZ(set) {}\<close>
  with the default member initialisers: an empty layer vector, no displays,
  \<^verbatim>\<open>colorMatrixChanged = true\<close> and a default-constructed \<^verbatim>\<open>mat4\<close> (passed in as \<open>m0\<close>).
\<close>

definition State_ctor :: "StateSet \<Rightarrow> 'mat \<Rightarrow> ('layer, 'token, 'dds, 'mat) State" where
  "State_ctor set0 m0 =
     \<lparr> stateSet = set0, layersSortedByZ = [], displays = Map.empty,
       colorMatrixChanged = True, colorMatrix = m0 \<rparr>"

text \<open>
  \<^verbatim>\<open>State& operator=(const State& other)\<close>: three unconditional member assignments, then
  the colour matrix under the guard \<^verbatim>\<open>if (colorMatrixChanged)\<close>, which reads the flag that
  was just overwritten. \<^verbatim>\<open>stateSet\<close> is not assigned.
\<close>

definition State_assign ::
  "('layer, 'token, 'dds, 'mat) State \<Rightarrow> ('layer, 'token, 'dds, 'mat) State
     \<Rightarrow> ('layer, 'token, 'dds, 'mat) State" where
  "State_assign this other =
     (let s1 = this\<lparr> layersSortedByZ := layersSortedByZ other \<rparr>;
          s2 = s1\<lparr> displays := displays other \<rparr>;
          s3 = s2\<lparr> colorMatrixChanged := colorMatrixChanged other \<rparr>
      in if colorMatrixChanged s3 then s3\<lparr> colorMatrix := colorMatrix other \<rparr> else s3)"

text \<open>
  Everything that can happen to one \<^verbatim>\<open>State\<close> object after its construction: it is the
  target of \<^verbatim>\<open>operator=\<close> (a commit does this to \<^verbatim>\<open>mDrawingState\<close>), or one of its four
  non-const members is written. \<^verbatim>\<open>stateSet\<close> is declared \<^verbatim>\<open>const\<close>, so there is no write
  to it.
\<close>

datatype ('layer, 'token, 'dds, 'mat) StateOp =
    Assign "('layer, 'token, 'dds, 'mat) State"
  | WriteLayersSortedByZ "'layer list"
  | WriteDisplays "'token \<rightharpoonup> 'dds"
  | WriteColorMatrixChanged bool
  | WriteColorMatrix 'mat

fun State_apply ::
  "('layer, 'token, 'dds, 'mat) State \<Rightarrow> ('layer, 'token, 'dds, 'mat) StateOp
     \<Rightarrow> ('layer, 'token, 'dds, 'mat) State" where
  "State_apply s (Assign other) = State_assign s other"
| "State_apply s (WriteLayersSortedByZ ls) = s\<lparr> layersSortedByZ := ls \<rparr>"
| "State_apply s (WriteDisplays ds) = s\<lparr> displays := ds \<rparr>"
| "State_apply s (WriteColorMatrixChanged b) = s\<lparr> colorMatrixChanged := b \<rparr>"
| "State_apply s (WriteColorMatrix m) = s\<lparr> colorMatrix := m \<rparr>"

text \<open>
  \<^verbatim>\<open>State mCurrentState{LayerVector::StateSet::Current};\<close> and
  \<^verbatim>\<open>State mDrawingState{LayerVector::StateSet::Drawing};\<close>
\<close>

definition mCurrentState_init :: "'mat \<Rightarrow> ('layer, 'token, 'dds, 'mat) State" where
  "mCurrentState_init m0 = State_ctor Current m0"

definition mDrawingState_init :: "'mat \<Rightarrow> ('layer, 'token, 'dds, 'mat) State" where
  "mDrawingState_init m0 = State_ctor Drawing m0"

section \<open>Display lookups\<close>

text \<open>
  A strong pointer \<^verbatim>\<open>sp<T>\<close> and a weak pointer \<^verbatim>\<open>wp<T>\<close> are either null or refer to one
  object; both compare by the object they refer to. \<open>None\<close> is \<^verbatim>\<open>nullptr\<close>.
\<close>

type_synonym 'a sp = "'a option"
type_synonym 'a wp = "'a option"

text \<open>
  The members the lookups read.
  \<^item> \<^verbatim>\<open>std::map<wp<IBinder>, sp<DisplayDevice>> mDisplays\<close> is a finite map.
  \<^item> \<^verbatim>\<open>std::unordered_map<DisplayId, sp<IBinder>> mPhysicalDisplayTokens\<close> is the list of
    its entries in the order a range-\<^verbatim>\<open>for\<close> visits them, since \<^verbatim>\<open>getPhysicalDisplayId\<close>
    returns at the first match of that order. The container keeps one entry per key.
  \<^item> \<^verbatim>\<open>HWComposer\<close> is declared elsewhere: what \<^verbatim>\<open>getInternalHwcDisplayId()\<close> returns and
    the function \<^verbatim>\<open>toPhysicalDisplayId\<close> are parameters.
\<close>

record ('token, 'dev, 'did, 'hwc) SurfaceFlinger =
  mDisplays :: "'token wp \<rightharpoonup> 'dev sp"
  mPhysicalDisplayTokens :: "('did \<times> 'token sp) list"
  getInternalHwcDisplayId :: "'hwc option"
  toPhysicalDisplayId :: "'hwc \<Rightarrow> 'did option"

text \<open>
  \<^verbatim>\<open>const auto it = mDisplays.find(displayToken);\<close>
  \<^verbatim>\<open>return it == mDisplays.end() ? nullptr : it->second;\<close>
\<close>

definition getDisplayDeviceLocked ::
  "('token, 'dev, 'did, 'hwc) SurfaceFlinger \<Rightarrow> 'token wp \<Rightarrow> 'dev sp" where
  "getDisplayDeviceLocked sf displayToken =
     (case mDisplays sf displayToken of None \<Rightarrow> None | Some device \<Rightarrow> device)"

text \<open>
  \<^verbatim>\<open>const auto it = mPhysicalDisplayTokens.find(displayId);\<close>
  \<^verbatim>\<open>return it != mPhysicalDisplayTokens.end() ? it->second : nullptr;\<close>
\<close>

definition getPhysicalDisplayToken ::
  "('token, 'dev, 'did, 'hwc) SurfaceFlinger \<Rightarrow> 'did \<Rightarrow> 'token sp" where
  "getPhysicalDisplayToken sf displayId =
     (case map_of (mPhysicalDisplayTokens sf) displayId of
        Some token \<Rightarrow> token
      | None \<Rightarrow> None)"

text \<open>
  \<^verbatim>\<open>for (const auto& [id, token] : mPhysicalDisplayTokens) {\<close>
  \<^verbatim>\<open>    if (token == displayToken) { return id; }\<close>
  \<^verbatim>\<open>}\<close>
  \<^verbatim>\<open>return {};\<close>
\<close>

fun getPhysicalDisplayId_loop :: "('did \<times> 'token sp) list \<Rightarrow> 'token sp \<Rightarrow> 'did option" where
  "getPhysicalDisplayId_loop [] displayToken = None"
| "getPhysicalDisplayId_loop ((did, token) # rest) displayToken =
     (if token = displayToken then Some did
      else getPhysicalDisplayId_loop rest displayToken)"

definition getPhysicalDisplayId ::
  "('token, 'dev, 'did, 'hwc) SurfaceFlinger \<Rightarrow> 'token sp \<Rightarrow> 'did option" where
  "getPhysicalDisplayId sf displayToken =
     getPhysicalDisplayId_loop (mPhysicalDisplayTokens sf) displayToken"

text \<open>
  \<^verbatim>\<open>const auto hwcDisplayId = getHwComposer().getInternalHwcDisplayId();\<close>
  \<^verbatim>\<open>return hwcDisplayId ? getHwComposer().toPhysicalDisplayId(*hwcDisplayId) : std::nullopt;\<close>
\<close>

definition getInternalDisplayId ::
  "('token, 'dev, 'did, 'hwc) SurfaceFlinger \<Rightarrow> 'did option" where
  "getInternalDisplayId sf =
     (case getInternalHwcDisplayId sf of
        Some hwcDisplayId \<Rightarrow> toPhysicalDisplayId sf hwcDisplayId
      | None \<Rightarrow> None)"

text \<open>
  \<^verbatim>\<open>const auto displayId = getInternalDisplayId();\<close>
  \<^verbatim>\<open>return displayId ? getPhysicalDisplayToken(*displayId) : nullptr;\<close>
\<close>

definition getInternalDisplayToken ::
  "('token, 'dev, 'did, 'hwc) SurfaceFlinger \<Rightarrow> 'token sp" where
  "getInternalDisplayToken sf =
     (case getInternalDisplayId sf of
        Some displayId \<Rightarrow> getPhysicalDisplayToken sf displayId
      | None \<Rightarrow> None)"

text \<open>
  \<^verbatim>\<open>if (const auto token = getInternalDisplayToken()) {\<close>
  \<^verbatim>\<open>    return getDisplayDeviceLocked(token);\<close>
  \<^verbatim>\<open>}\<close>
  \<^verbatim>\<open>return nullptr;\<close>
\<close>

definition getDefaultDisplayDeviceLocked ::
  "('token, 'dev, 'did, 'hwc) SurfaceFlinger \<Rightarrow> 'dev sp" where
  "getDefaultDisplayDeviceLocked sf =
     (case getInternalDisplayToken sf of
        Some token \<Rightarrow> getDisplayDeviceLocked sf (Some token)
      | None \<Rightarrow> None)"

text \<open>
  A configuration with one connected physical display (id 100, token 1, device 10) whose
  hardware composer reports an internal display that maps to the unregistered id 200.
\<close>

definition one_display_flinger :: "(nat, nat, nat, nat) SurfaceFlinger" where
  "one_display_flinger =
     \<lparr> mDisplays = [Some 1 \<mapsto> Some 10],
       mPhysicalDisplayTokens = [(100, Some 1)],
       getInternalHwcDisplayId = Some 0,
       toPhysicalDisplayId = (\<lambda>h. if h = 0 then Some 200 else None) \<rparr>"

text \<open>Two connected physical displays with distinct tokens.\<close>

definition two_display_flinger :: "(nat, nat, nat, nat) SurfaceFlinger" where
  "two_display_flinger =
     \<lparr> mDisplays = [Some 1 \<mapsto> Some 10, Some 2 \<mapsto> Some 20],
       mPhysicalDisplayTokens = [(100, Some 1), (200, Some 2)],
       getInternalHwcDisplayId = Some 0,
       toPhysicalDisplayId = (\<lambda>h. if h = 0 then Some 100 else Some 200) \<rparr>"

section \<open>Transaction flags\<close>

text \<open>
  The anonymous \<^verbatim>\<open>enum\<close> at the head of SurfaceFlinger.h, as 32-bit values: the flags are
  passed as \<^verbatim>\<open>uint32_t\<close> and kept in \<^verbatim>\<open>std::atomic<int32_t> mTransactionFlags{0}\<close>.
\<close>

definition eTransactionNeeded :: "32 word" where
  "eTransactionNeeded = 0x01"

definition eTraversalNeeded :: "32 word" where
  "eTraversalNeeded = 0x02"

definition eDisplayTransactionNeeded :: "32 word" where
  "eDisplayTransactionNeeded = 0x04"

definition eDisplayLayerStackChanged :: "32 word" where
  "eDisplayLayerStackChanged = 0x08"

definition eTransactionMask :: "32 word" where
  "eTransactionMask = 0x0f"

definition mTransactionFlags_init :: "32 word" where
  "mTransactionFlags_init = 0"

text \<open>
  Modelled from the spec: the body of \<^verbatim>\<open>setTransactionFlags(uint32_t flags)\<close> is missing,
  SurfaceFlinger.h only declares it. The spec has enqueuing merge the changes into the
  pending set by OR-ing a bitmask of change kinds. The model takes the pending mask and
  the flags of the call and gives the pending mask after the call.
\<close>

definition setTransactionFlags :: "32 word \<Rightarrow> 32 word \<Rightarrow> 32 word" where
  "setTransactionFlags pending flags = pending OR flags"

section \<open>Layer capacity\<close>

text \<open>
  \<^verbatim>\<open>static const size_t MAX_LAYERS = 4096;\<close> and
  \<^verbatim>\<open>size_t mMaxGraphicBufferProducerListSize = MAX_LAYERS;\<close>
\<close>

definition MAX_LAYERS :: nat where
  "MAX_LAYERS = 4096"

definition mMaxGraphicBufferProducerListSize_init :: nat where
  "mMaxGraphicBufferProducerListSize_init = MAX_LAYERS"

text \<open>
  The layer count \<^verbatim>\<open>size_t mNumLayers\<close> and the layers that exist. The count is a natural
  number: the model increments it only below \<open>MAX_LAYERS\<close>, far from the width of
  \<^verbatim>\<open>size_t\<close>.
\<close>

record 'layer LayerStore =
  mNumLayers :: nat
  mLayers :: "'layer list"

text \<open>\<^verbatim>\<open>inline void onLayerCreated() { mNumLayers++; }\<close>\<close>

definition onLayerCreated :: "'layer LayerStore \<Rightarrow> 'layer LayerStore" where
  "onLayerCreated s = s\<lparr> mNumLayers := mNumLayers s + 1 \<rparr>"

datatype 'e CreateError = CapacityExceeded | CreationFailed 'e

text \<open>
  Modelled from the spec: the body of \<^verbatim>\<open>createLayer\<close> is missing, SurfaceFlinger.h only
  declares it. The spec has layer creation fail synchronously with a capacity-exceeded
  signal when the layer count is at capacity, creating no partial layer. What building
  the layer from the request does below capacity is the parameter \<open>build\<close>; its own
  failures are reported apart from the capacity error.
\<close>

definition createLayer ::
  "('req \<Rightarrow> 'e + 'layer) \<Rightarrow> 'layer LayerStore \<Rightarrow> 'req
     \<Rightarrow> ('e CreateError + 'layer) \<times> 'layer LayerStore" where
  "createLayer build s req =
     (if MAX_LAYERS \<le> mNumLayers s then (Inl CapacityExceeded, s)
      else case build req of
             Inl e \<Rightarrow> (Inl (CreationFailed e), s)
           | Inr layer \<Rightarrow> (Inr layer, onLayerCreated (s\<lparr> mLayers := mLayers s @ [layer] \<rparr>)))"

section \<open>Visible regions\<close>

text \<open>
  A region is the set of the pixels it covers; \<^verbatim>\<open>Region\<close> and \<^verbatim>\<open>Layer\<close> are declared in
  other headers. Of a layer the computation reads the layer stack it is on, its
  screen-space footprint and its opaque footprint.
\<close>

type_synonym Region = "(int \<times> int) set"

record Layer =
  layerStack :: nat
  footprint :: Region
  opaqueFootprint :: Region

text \<open>
  Modelled from the spec: the body of \<^verbatim>\<open>computeVisibleRegions\<close> is missing, SurfaceFlinger.h
  only declares it. The spec has it walk the depth-ordered layers front to back for one
  display, accumulating an opaque region, and give each layer on the display's layer
  stack its footprint minus the union of the opaque footprints of the layers strictly in
  front of it on that stack. A layer on another stack is passed over (\<open>None\<close>). The
  result is the visible regions, in the order of the walk, and the accumulated opaque
  region.
\<close>

fun computeVisibleRegions_walk ::
  "nat \<Rightarrow> Region \<Rightarrow> Layer list \<Rightarrow> Region option list \<times> Region" where
  "computeVisibleRegions_walk stack aboveOpaque [] = ([], aboveOpaque)"
| "computeVisibleRegions_walk stack aboveOpaque (layer # rest) =
     (if layerStack layer = stack then
        (case computeVisibleRegions_walk stack (aboveOpaque \<union> opaqueFootprint layer) rest of
           (visible, opaqueRegion) \<Rightarrow>
             (Some (footprint layer - aboveOpaque) # visible, opaqueRegion))
      else
        (case computeVisibleRegions_walk stack aboveOpaque rest of
           (visible, opaqueRegion) \<Rightarrow> (None # visible, opaqueRegion)))"

definition computeVisibleRegions :: "nat \<Rightarrow> Layer list \<Rightarrow> Region option list \<times> Region" where
  "computeVisibleRegions stack frontToBack = computeVisibleRegions_walk stack {} frontToBack"

text \<open>An opaque layer covering a screen of 2 by 2 pixels, on layer stack 0.\<close>

definition fullScreenOpaqueLayer :: Layer where
  "fullScreenOpaqueLayer =
     \<lparr> layerStack = 0,
       footprint = {(0, 0), (0, 1), (1, 0), (1, 1)},
       opaqueFootprint = {(0, 0), (0, 1), (1, 0), (1, 1)} \<rparr>"

section \<open>Texture pool\<close>

text \<open>
  The two locks of SurfaceFlinger.h that matter here, \<^verbatim>\<open>mStateLock\<close> and
  \<^verbatim>\<open>mTexturePoolMutex\<close>, and what a call does besides computing: taking and releasing a
  lock, and posting a synchronous message to the main thread.
\<close>

datatype Mutex = StateLock | TexturePoolMutex

datatype Event = Acquire Mutex | Release Mutex | PostMessageSync

text \<open>
  Modelled from the spec: the body of \<^verbatim>\<open>getNewTexture\<close> is missing, SurfaceFlinger.h only
  declares it, with the comment that it obtains a name from the texture pool or, if the
  pool is empty, posts a synchronous message to the main thread to obtain one on the fly.
  The spec has the pool guarded by its own lock. \<^verbatim>\<open>std::vector<uint32_t> mTexturePool\<close> is a
  list whose last element is the back of the vector; \<open>fresh\<close> is the name the main thread
  answers with. The result is the name, the pool after the call and the events of the call.
\<close>

definition getNewTexture :: "32 word \<Rightarrow> 32 word list \<Rightarrow> 32 word \<times> 32 word list \<times> Event list" where
  "getNewTexture fresh mTexturePool =
     (if mTexturePool \<noteq> [] then
        (last mTexturePool, butlast mTexturePool,
         [Acquire TexturePoolMutex, Release TexturePoolMutex])
      else
        (fresh, mTexturePool,
         [Acquire TexturePoolMutex, Release TexturePoolMutex, PostMessageSync]))"

section \<open>Theorems\<close>

subsection \<open>Assignment of snapshots\<close>

lemma stateSet_State_assign: "stateSet (State_assign d c) = stateSet d"
  by (simp add: State_assign_def Let_def)

lemma stateSet_State_apply: "stateSet (State_apply s x) = stateSet s"
  by (cases x) (simp_all add: stateSet_State_assign)

lemma stateSet_foldl_State_apply: "stateSet (foldl State_apply s xs) = stateSet s"
  by (induction xs arbitrary: s) (simp_all add: stateSet_State_apply)

text \<open>
  C1, as stated, at a concrete pair: the drawing snapshot holds the identity matrix, the
  current snapshot holds a different matrix with \<^verbatim>\<open>colorMatrixChanged\<close> false. After the
  assignment the drawing snapshot still holds the identity matrix, not the current one's.
\<close>

theorem State_assign_colorMatrix_counterexample:
  "colorMatrix
     (State_assign
        \<lparr> stateSet = Drawing, layersSortedByZ = [] :: nat list,
          displays = (Map.empty :: nat \<rightharpoonup> nat), colorMatrixChanged = True,
          colorMatrix = [1, 0, 0, 0, 0, 1, 0, 0, 0, 0, 1, 0, 0, 0, 0, 1 :: int] \<rparr>
        \<lparr> stateSet = Current, layersSortedByZ = [7],
          displays = [0 \<mapsto> 3], colorMatrixChanged = False,
          colorMatrix = [2, 0, 0, 0, 0, 2, 0, 0, 0, 0, 2, 0, 0, 0, 0, 1] \<rparr>)
   \<noteq> colorMatrix
       \<lparr> stateSet = Current, layersSortedByZ = [7 :: nat],
         displays = [0 \<mapsto> 3 :: nat] :: nat \<rightharpoonup> nat, colorMatrixChanged = False,
         colorMatrix = [2, 0, 0, 0, 0, 2, 0, 0, 0, 0, 2, 0, 0, 0, 0, 1 :: int] \<rparr>"
  by (simp add: State_assign_def Let_def)

text \<open>
  C1, amended: assigning \<open>c\<close> (current) to \<open>d\<close> (drawing) makes the layer sequence, the
  displays and the \<^verbatim>\<open>colorMatrixChanged\<close> flag of the result equal to those of \<open>c\<close>; the
  colour matrix of the result is that of \<open>c\<close> when \<open>c\<close>'s flag is set and is the one \<open>d\<close>
  had before otherwise.
\<close>

theorem State_assign_content:
  "layersSortedByZ (State_assign d c) = layersSortedByZ c
   \<and> displays (State_assign d c) = displays c
   \<and> colorMatrixChanged (State_assign d c) = colorMatrixChanged c
   \<and> colorMatrix (State_assign d c)
       = (if colorMatrixChanged c then colorMatrix c else colorMatrix d)"
  by (simp add: State_assign_def Let_def)

theorem State_assign_content_witness:
  "colorMatrix
     (State_assign
        \<lparr> stateSet = Drawing, layersSortedByZ = [] :: nat list,
          displays = (Map.empty :: nat \<rightharpoonup> nat), colorMatrixChanged = False,
          colorMatrix = [1, 0, 0, 1 :: int] \<rparr>
        \<lparr> stateSet = Current, layersSortedByZ = [7],
          displays = [0 \<mapsto> 3], colorMatrixChanged = True,
          colorMatrix = [2, 0, 0, 1] \<rparr>) = [2, 0, 0, 1]
   \<and> layersSortedByZ
     (State_assign
        \<lparr> stateSet = Drawing, layersSortedByZ = [] :: nat list,
          displays = (Map.empty :: nat \<rightharpoonup> nat), colorMatrixChanged = False,
          colorMatrix = [1, 0, 0, 1 :: int] \<rparr>
        \<lparr> stateSet = Current, layersSortedByZ = [7],
          displays = [0 \<mapsto> 3], colorMatrixChanged = True,
          colorMatrix = [2, 0, 0, 1] \<rparr>) = [7]"
  using State_assign_content
    [of "\<lparr> stateSet = Drawing, layersSortedByZ = [] :: nat list,
          displays = (Map.empty :: nat \<rightharpoonup> nat), colorMatrixChanged = False,
          colorMatrix = [1, 0, 0, 1 :: int] \<rparr>"
        "\<lparr> stateSet = Current, layersSortedByZ = [7],
          displays = [0 \<mapsto> 3], colorMatrixChanged = True,
          colorMatrix = [2, 0, 0, 1] \<rparr>"]
  by simp

text \<open>
  C2, as stated, at a concrete pair: the claim has \<^verbatim>\<open>operator=\<close> copy every content field.
  A freshly constructed drawing snapshot is assigned from a current snapshot with one
  layer, one display, a cleared \<^verbatim>\<open>colorMatrixChanged\<close> flag and a saturation matrix: the
  four content fields of the result are not all those of the source, because the colour
  matrix is still the one the constructor gave.
\<close>

theorem State_assign_every_field_counterexample:
  "\<not> (layersSortedByZ
          (State_assign (mDrawingState_init [1, 0, 0, 1 :: int])
             \<lparr> stateSet = Current, layersSortedByZ = [4 :: nat],
               displays = [1 \<mapsto> 2 :: nat] :: nat \<rightharpoonup> nat, colorMatrixChanged = False,
               colorMatrix = [3, 0, 0, 3] \<rparr>) = [4]
        \<and> displays
          (State_assign (mDrawingState_init [1, 0, 0, 1 :: int])
             \<lparr> stateSet = Current, layersSortedByZ = [4 :: nat],
               displays = [1 \<mapsto> 2 :: nat] :: nat \<rightharpoonup> nat, colorMatrixChanged = False,
               colorMatrix = [3, 0, 0, 3] \<rparr>) = [1 \<mapsto> 2]
        \<and> colorMatrixChanged
          (State_assign (mDrawingState_init [1, 0, 0, 1 :: int])
             \<lparr> stateSet = Current, layersSortedByZ = [4 :: nat],
               displays = [1 \<mapsto> 2 :: nat] :: nat \<rightharpoonup> nat, colorMatrixChanged = False,
               colorMatrix = [3, 0, 0, 3] \<rparr>) = False
        \<and> colorMatrix
          (State_assign (mDrawingState_init [1, 0, 0, 1 :: int])
             \<lparr> stateSet = Current, layersSortedByZ = [4 :: nat],
               displays = [1 \<mapsto> 2 :: nat] :: nat \<rightharpoonup> nat, colorMatrixChanged = False,
               colorMatrix = [3, 0, 0, 3] \<rparr>) = [3, 0, 0, 3])"
  by (simp add: State_assign_def Let_def mDrawingState_init_def State_ctor_def)

text \<open>
  C2, amended: the which-set tag of a \<^verbatim>\<open>State\<close> object is the one its constructor was given
  and never changes afterwards. \<^verbatim>\<open>operator=\<close> leaves the target's tag as it was whatever
  the source, while it copies the layer sequence, the displays and the
  \<^verbatim>\<open>colorMatrixChanged\<close> flag, and the colour matrix when the source's flag is set (the
  target keeps its own matrix otherwise). So after any sequence of assignments (commits)
  and member writes \<^verbatim>\<open>mCurrentState\<close> carries \<^verbatim>\<open>Current\<close> and \<^verbatim>\<open>mDrawingState\<close> carries
  \<^verbatim>\<open>Drawing\<close>.
\<close>

theorem stateSet_fixed_content_copied:
  "stateSet (State_ctor s m0 :: ('layer, 'token, 'dds, 'mat) State) = s
   \<and> stateSet (State_assign d c) = stateSet (d :: ('layer, 'token, 'dds, 'mat) State)
   \<and> layersSortedByZ (State_assign d c) = layersSortedByZ c
   \<and> displays (State_assign d c) = displays c
   \<and> colorMatrixChanged (State_assign d c) = colorMatrixChanged c
   \<and> colorMatrix (State_assign d c)
       = (if colorMatrixChanged c then colorMatrix c else colorMatrix d)
   \<and> stateSet (foldl State_apply d ops) = stateSet d
   \<and> stateSet (foldl State_apply (mCurrentState_init m0) ops) = Current
   \<and> stateSet (foldl State_apply (mDrawingState_init m0) ops) = Drawing"
proof -
  have tag: "stateSet (State_assign d c) = stateSet d"
    by (rule stateSet_State_assign)
  have content: "layersSortedByZ (State_assign d c) = layersSortedByZ c
      \<and> displays (State_assign d c) = displays c
      \<and> colorMatrixChanged (State_assign d c) = colorMatrixChanged c
      \<and> colorMatrix (State_assign d c)
          = (if colorMatrixChanged c then colorMatrix c else colorMatrix d)"
    by (simp add: State_assign_def Let_def)
  have seq: "stateSet (foldl State_apply x ops) = stateSet x"
    for x :: "('layer, 'token, 'dds, 'mat) State"
    by (rule stateSet_foldl_State_apply)
  have ctor: "stateSet (State_ctor t m0 :: ('layer, 'token, 'dds, 'mat) State) = t" for t
    by (simp add: State_ctor_def)
  from tag content seq ctor show ?thesis
    by (simp add: mCurrentState_init_def mDrawingState_init_def)
qed

theorem stateSet_fixed_content_copied_witness:
  "stateSet
     (State_assign (mDrawingState_init [1, 0, 0, 1 :: int])
        \<lparr> stateSet = Current, layersSortedByZ = [4 :: nat],
          displays = [1 \<mapsto> 2 :: nat] :: nat \<rightharpoonup> nat, colorMatrixChanged = True,
          colorMatrix = [3, 0, 0, 3] \<rparr>) = Drawing
   \<and> layersSortedByZ
     (State_assign (mDrawingState_init [1, 0, 0, 1 :: int])
        \<lparr> stateSet = Current, layersSortedByZ = [4 :: nat],
          displays = [1 \<mapsto> 2 :: nat] :: nat \<rightharpoonup> nat, colorMatrixChanged = True,
          colorMatrix = [3, 0, 0, 3] \<rparr>) = [4]
   \<and> colorMatrix
     (State_assign (mDrawingState_init [1, 0, 0, 1 :: int])
        \<lparr> stateSet = Current, layersSortedByZ = [4 :: nat],
          displays = [1 \<mapsto> 2 :: nat] :: nat \<rightharpoonup> nat, colorMatrixChanged = True,
          colorMatrix = [3, 0, 0, 3] \<rparr>) = [3, 0, 0, 3]
   \<and> stateSet
     (foldl State_apply (mDrawingState_init [1, 0, 0, 1 :: int])
        [WriteColorMatrixChanged False,
         Assign \<lparr> stateSet = Current, layersSortedByZ = [4 :: nat],
                  displays = [1 \<mapsto> 2 :: nat] :: nat \<rightharpoonup> nat, colorMatrixChanged = True,
                  colorMatrix = [3, 0, 0, 3] \<rparr>]) = Drawing"
proof -
  let ?D = "mDrawingState_init [1, 0, 0, 1 :: int] :: (nat, nat, nat, int list) State"
  let ?C = "\<lparr> stateSet = Current, layersSortedByZ = [4 :: nat],
              displays = [1 \<mapsto> 2 :: nat] :: nat \<rightharpoonup> nat, colorMatrixChanged = True,
              colorMatrix = [3, 0, 0, 3 :: int] \<rparr>"
  let ?ops = "[WriteColorMatrixChanged False, Assign ?C]"
  note t = stateSet_fixed_content_copied [of Drawing "[1, 0, 0, 1 :: int]" ?D ?C ?ops]
  have tag0: "stateSet ?D = Drawing"
    by (simp add: mDrawingState_init_def State_ctor_def)
  from t have "stateSet (State_assign ?D ?C) = stateSet ?D" by blast
  with tag0 have c1: "stateSet (State_assign ?D ?C) = Drawing" by simp
  from t have "layersSortedByZ (State_assign ?D ?C) = layersSortedByZ ?C" by blast
  then have c2: "layersSortedByZ (State_assign ?D ?C) = [4]" by simp
  from t have "colorMatrix (State_assign ?D ?C)
      = (if colorMatrixChanged ?C then colorMatrix ?C else colorMatrix ?D)" by blast
  then have c3: "colorMatrix (State_assign ?D ?C) = [3, 0, 0, 3]" by simp
  from t have c4: "stateSet (foldl State_apply ?D ?ops) = Drawing" by blast
  from c1 c2 c3 c4 show ?thesis by blast
qed

subsection \<open>Transaction flags\<close>

lemma within_mask_setTransactionFlags:
  "pending AND eTransactionMask = pending \<Longrightarrow> flags AND eTransactionMask = flags
     \<Longrightarrow> setTransactionFlags pending flags AND eTransactionMask
           = setTransactionFlags pending flags"
  by (simp add: setTransactionFlags_def bit.conj_disj_distrib2)

lemma within_mask_foldl:
  "pending AND eTransactionMask = pending \<Longrightarrow> \<forall>f \<in> set fs. f AND eTransactionMask = f
     \<Longrightarrow> foldl setTransactionFlags pending fs AND eTransactionMask
           = foldl setTransactionFlags pending fs"
proof (induction fs arbitrary: pending)
  case Nil
  then show ?case by simp
next
  case (Cons f fs)
  from Cons.prems have "setTransactionFlags pending f AND eTransactionMask
      = setTransactionFlags pending f"
    by (simp add: within_mask_setTransactionFlags)
  with Cons.IH [of "setTransactionFlags pending f"] Cons.prems(2) show ?case by simp
qed

text \<open>
  C4: the four transaction-needed flags of the enum have \<^verbatim>\<open>eTransactionMask = 0x0f\<close> as
  their union. Starting from the initial \<^verbatim>\<open>mTransactionFlags\<close> and enqueuing any sequence
  of flag sets that are made of these flags, the pending mask has no bit outside the
  transaction mask; and enqueuing the same flag set a second time leaves the pending
  mask as the first time left it.
\<close>

theorem pending_flags_within_mask_idempotent:
  "eTransactionNeeded OR eTraversalNeeded OR eDisplayTransactionNeeded
     OR eDisplayLayerStackChanged = eTransactionMask
   \<and> eTransactionMask = 0x0f
   \<and> ((\<forall>f \<in> set fs. f AND eTransactionMask = f) \<longrightarrow>
        foldl setTransactionFlags mTransactionFlags_init fs AND eTransactionMask
          = foldl setTransactionFlags mTransactionFlags_init fs)
   \<and> setTransactionFlags (setTransactionFlags pending flags) flags
        = setTransactionFlags pending flags"
proof (intro conjI impI)
  show "eTransactionNeeded OR eTraversalNeeded OR eDisplayTransactionNeeded
     OR eDisplayLayerStackChanged = eTransactionMask"
    by (simp add: eTransactionNeeded_def eTraversalNeeded_def eDisplayTransactionNeeded_def
          eDisplayLayerStackChanged_def eTransactionMask_def)
  show "eTransactionMask = 0x0f" by (simp add: eTransactionMask_def)
  show "setTransactionFlags (setTransactionFlags pending flags) flags
        = setTransactionFlags pending flags"
    by (simp add: setTransactionFlags_def or.assoc)
next
  assume "\<forall>f \<in> set fs. f AND eTransactionMask = f"
  then show "foldl setTransactionFlags mTransactionFlags_init fs AND eTransactionMask
          = foldl setTransactionFlags mTransactionFlags_init fs"
    by (intro within_mask_foldl) (simp_all add: mTransactionFlags_init_def)
qed

theorem pending_flags_within_mask_idempotent_witness:
  "eTraversalNeeded AND eTransactionMask = eTraversalNeeded
   \<and> (eTransactionNeeded OR eDisplayTransactionNeeded) AND eTransactionMask
       = eTransactionNeeded OR eDisplayTransactionNeeded
   \<and> foldl setTransactionFlags mTransactionFlags_init
        [eTraversalNeeded, eTransactionNeeded OR eDisplayTransactionNeeded, eTraversalNeeded]
        AND eTransactionMask
      = foldl setTransactionFlags mTransactionFlags_init
        [eTraversalNeeded, eTransactionNeeded OR eDisplayTransactionNeeded, eTraversalNeeded]
   \<and> foldl setTransactionFlags mTransactionFlags_init
        [eTraversalNeeded, eTransactionNeeded OR eDisplayTransactionNeeded, eTraversalNeeded]
      = 0x07"
proof -
  have h: "\<forall>f \<in> set [eTraversalNeeded, eTransactionNeeded OR eDisplayTransactionNeeded,
                eTraversalNeeded]. f AND eTransactionMask = f"
    by (simp add: eTransactionNeeded_def eTraversalNeeded_def eDisplayTransactionNeeded_def
          eTransactionMask_def)
  have v: "foldl setTransactionFlags mTransactionFlags_init
        [eTraversalNeeded, eTransactionNeeded OR eDisplayTransactionNeeded, eTraversalNeeded]
      = 0x07"
    by (simp add: eTransactionNeeded_def eTraversalNeeded_def eDisplayTransactionNeeded_def
          setTransactionFlags_def mTransactionFlags_init_def)
  from pending_flags_within_mask_idempotent
    [of "[eTraversalNeeded, eTransactionNeeded OR eDisplayTransactionNeeded, eTraversalNeeded]"]
    h v
  show ?thesis by simp
qed

subsection \<open>Layer capacity\<close>

text \<open>
  C5: \<^verbatim>\<open>MAX_LAYERS\<close> is 4096 and is also the initial bound of the graphic-buffer-producer
  list. With the layer count at capacity, layer creation returns the capacity error and
  the store is exactly as before; below capacity the capacity error is not returned.
  Whatever the error, a failed creation leaves the store unchanged, and the count never
  passes the capacity.
\<close>

theorem createLayer_capacity:
  "MAX_LAYERS = 4096
   \<and> mMaxGraphicBufferProducerListSize_init = MAX_LAYERS
   \<and> (MAX_LAYERS \<le> mNumLayers s \<longrightarrow> createLayer build s req = (Inl CapacityExceeded, s))
   \<and> (mNumLayers s < MAX_LAYERS \<longrightarrow> fst (createLayer build s req) \<noteq> Inl CapacityExceeded)
   \<and> (\<forall>e. fst (createLayer build s req) = Inl e \<longrightarrow> snd (createLayer build s req) = s)
   \<and> (mNumLayers s \<le> MAX_LAYERS \<longrightarrow> mNumLayers (snd (createLayer build s req)) \<le> MAX_LAYERS)"
  by (auto simp: createLayer_def MAX_LAYERS_def mMaxGraphicBufferProducerListSize_init_def
        onLayerCreated_def split: sum.splits)

theorem createLayer_capacity_witness:
  "MAX_LAYERS \<le> mNumLayers \<lparr> mNumLayers = 4096, mLayers = replicate 4096 (0::nat) \<rparr>
   \<and> createLayer (Inr :: nat \<Rightarrow> unit + nat)
        \<lparr> mNumLayers = 4096, mLayers = replicate 4096 0 \<rparr> 7
      = (Inl CapacityExceeded, \<lparr> mNumLayers = 4096, mLayers = replicate 4096 0 \<rparr>)
   \<and> mNumLayers \<lparr> mNumLayers = 2, mLayers = [5, 6 :: nat] \<rparr> < MAX_LAYERS
   \<and> fst (createLayer (Inr :: nat \<Rightarrow> unit + nat) \<lparr> mNumLayers = 2, mLayers = [5, 6] \<rparr> 7)
      \<noteq> Inl CapacityExceeded"
proof -
  have full: "MAX_LAYERS \<le> mNumLayers \<lparr> mNumLayers = 4096, mLayers = replicate 4096 (0::nat) \<rparr>"
    by (simp add: MAX_LAYERS_def)
  have below: "mNumLayers \<lparr> mNumLayers = 2, mLayers = [5, 6 :: nat] \<rparr> < MAX_LAYERS"
    by (simp add: MAX_LAYERS_def)
  from full below
    createLayer_capacity
      [of "\<lparr> mNumLayers = 4096, mLayers = replicate 4096 (0::nat) \<rparr>"
          "Inr :: nat \<Rightarrow> unit + nat" 7]
    createLayer_capacity
      [of "\<lparr> mNumLayers = 2, mLayers = [5, 6 :: nat] \<rparr>" "Inr :: nat \<Rightarrow> unit + nat" 7]
  show ?thesis by blast
qed

subsection \<open>Visible regions\<close>

lemma walk_nth:
  "i < length ls \<Longrightarrow> layerStack (ls ! i) = d \<Longrightarrow>
     fst (computeVisibleRegions_walk d acc ls) ! i
       = Some (footprint (ls ! i)
               - (acc \<union> \<Union> (opaqueFootprint ` {l \<in> set (take i ls). layerStack l = d})))"
proof (induction ls arbitrary: acc i)
  case Nil
  then show ?case by simp
next
  case (Cons l ls)
  show ?case
  proof (cases i)
    case 0
    with Cons.prems show ?thesis by (simp add: case_prod_beta)
  next
    case (Suc k)
    with Cons.prems have k: "k < length ls" "layerStack (ls ! k) = d" by simp_all
    show ?thesis
    proof (cases "layerStack l = d")
      case True
      have "{x \<in> set (take i (l # ls)). layerStack x = d}
          = insert l {x \<in> set (take k ls). layerStack x = d}"
        using Suc True by auto
      moreover have "fst (computeVisibleRegions_walk d acc (l # ls)) ! i
          = fst (computeVisibleRegions_walk d (acc \<union> opaqueFootprint l) ls) ! k"
        using Suc True by (simp add: case_prod_beta)
      ultimately show ?thesis
        using Cons.IH [OF k, of "acc \<union> opaqueFootprint l"] Suc
        by (simp add: Un_assoc)
    next
      case False
      have "{x \<in> set (take i (l # ls)). layerStack x = d}
          = {x \<in> set (take k ls). layerStack x = d}"
        using Suc False by auto
      moreover have "fst (computeVisibleRegions_walk d acc (l # ls)) ! i
          = fst (computeVisibleRegions_walk d acc ls) ! k"
        using Suc False by (simp add: case_prod_beta)
      ultimately show ?thesis
        using Cons.IH [OF k, of acc] Suc by simp
    qed
  qed
qed

text \<open>
  C6: in the walk for the display's layer stack, the visible region of a layer on that
  stack is its footprint minus the union of the opaque footprints of the layers of the
  stack strictly in front of it. So of two identical opaque layers, one behind the other,
  the back one has an empty visible region.
\<close>

theorem visible_region_is_footprint_minus_opaque_in_front:
  "(i < length frontToBack \<and> layerStack (frontToBack ! i) = stack \<longrightarrow>
      fst (computeVisibleRegions stack frontToBack) ! i
        = Some (footprint (frontToBack ! i)
                - \<Union> (opaqueFootprint ` {l \<in> set (take i frontToBack). layerStack l = stack})))
   \<and> (layerStack layer = stack \<and> opaqueFootprint layer = footprint layer \<longrightarrow>
        fst (computeVisibleRegions stack [layer, layer]) ! 1 = Some {})"
proof (intro conjI impI)
  assume "i < length frontToBack \<and> layerStack (frontToBack ! i) = stack"
  then show "fst (computeVisibleRegions stack frontToBack) ! i
        = Some (footprint (frontToBack ! i)
                - \<Union> (opaqueFootprint ` {l \<in> set (take i frontToBack). layerStack l = stack}))"
    by (simp add: computeVisibleRegions_def walk_nth)
next
  assume "layerStack layer = stack \<and> opaqueFootprint layer = footprint layer"
  then show "fst (computeVisibleRegions stack [layer, layer]) ! 1 = Some {}"
    by (simp add: computeVisibleRegions_def)
qed

theorem visible_region_witness:
  "(1::nat) < length [fullScreenOpaqueLayer, fullScreenOpaqueLayer]
   \<and> layerStack ([fullScreenOpaqueLayer, fullScreenOpaqueLayer] ! 1) = 0
   \<and> opaqueFootprint fullScreenOpaqueLayer = footprint fullScreenOpaqueLayer
   \<and> fst (computeVisibleRegions 0 [fullScreenOpaqueLayer, fullScreenOpaqueLayer]) ! 0
       = Some {(0, 0), (0, 1), (1, 0), (1, 1)}
   \<and> fst (computeVisibleRegions 0 [fullScreenOpaqueLayer, fullScreenOpaqueLayer]) ! 1
       = Some {}"
proof -
  have h1: "(1::nat) < length [fullScreenOpaqueLayer, fullScreenOpaqueLayer]
     \<and> layerStack ([fullScreenOpaqueLayer, fullScreenOpaqueLayer] ! 1) = 0"
    by (simp add: fullScreenOpaqueLayer_def)
  have h0: "(0::nat) < length [fullScreenOpaqueLayer, fullScreenOpaqueLayer]
     \<and> layerStack ([fullScreenOpaqueLayer, fullScreenOpaqueLayer] ! 0) = 0"
    by (simp add: fullScreenOpaqueLayer_def)
  have h2: "layerStack fullScreenOpaqueLayer = 0
     \<and> opaqueFootprint fullScreenOpaqueLayer = footprint fullScreenOpaqueLayer"
    by (simp add: fullScreenOpaqueLayer_def)
  have f: "footprint fullScreenOpaqueLayer = {(0, 0), (0, 1), (1, 0), (1, 1)}"
    by (simp add: fullScreenOpaqueLayer_def)
  from visible_region_is_footprint_minus_opaque_in_front
         [of 0 "[fullScreenOpaqueLayer, fullScreenOpaqueLayer]" 0 fullScreenOpaqueLayer] h0 f
  have v0: "fst (computeVisibleRegions 0 [fullScreenOpaqueLayer, fullScreenOpaqueLayer]) ! 0
       = Some {(0, 0), (0, 1), (1, 0), (1, 1)}"
    by simp
  from visible_region_is_footprint_minus_opaque_in_front
         [of 1 "[fullScreenOpaqueLayer, fullScreenOpaqueLayer]" 0 fullScreenOpaqueLayer] h2
  have v1: "fst (computeVisibleRegions 0 [fullScreenOpaqueLayer, fullScreenOpaqueLayer]) ! 1
       = Some {}"
    by blast
  from h1 h2 v0 v1 show ?thesis by blast
qed

subsection \<open>Texture pool\<close>

text \<open>
  C8: with a non-empty pool, \<^verbatim>\<open>getNewTexture\<close> returns a name of the pool, removes that one
  name from it and posts no message; a synchronous message is posted exactly when the pool
  is empty, and the name is then the main thread's answer. The call takes the pool's own
  lock and never the state lock.
\<close>

theorem getNewTexture_pool_first:
  "(mTexturePool \<noteq> [] \<longrightarrow>
      fst (getNewTexture fresh mTexturePool) \<in> set mTexturePool
      \<and> mset mTexturePool
          = add_mset (fst (getNewTexture fresh mTexturePool))
              (mset (fst (snd (getNewTexture fresh mTexturePool))))
      \<and> PostMessageSync \<notin> set (snd (snd (getNewTexture fresh mTexturePool))))
   \<and> (PostMessageSync \<in> set (snd (snd (getNewTexture fresh mTexturePool)))
        \<longleftrightarrow> mTexturePool = [])
   \<and> (mTexturePool = [] \<longrightarrow>
        fst (getNewTexture fresh mTexturePool) = fresh
        \<and> fst (snd (getNewTexture fresh mTexturePool)) = [])
   \<and> Acquire TexturePoolMutex \<in> set (snd (snd (getNewTexture fresh mTexturePool)))
   \<and> Acquire StateLock \<notin> set (snd (snd (getNewTexture fresh mTexturePool)))"
proof (cases "mTexturePool = []")
  case True
  then show ?thesis by (simp add: getNewTexture_def)
next
  case False
  then have "mTexturePool = butlast mTexturePool @ [last mTexturePool]" by simp
  then have "mset mTexturePool = add_mset (last mTexturePool) (mset (butlast mTexturePool))"
    by (metis mset_append mset_single_iff_right union_mset_add_mset_right add.right_neutral
          mset.simps(1) mset.simps(2))
  with False show ?thesis by (simp add: getNewTexture_def)
qed

theorem getNewTexture_pool_first_witness:
  "[3, 5, 8 :: 32 word] \<noteq> []
   \<and> getNewTexture 42 [3, 5, 8] = (8, [3, 5], [Acquire TexturePoolMutex, Release TexturePoolMutex])
   \<and> fst (getNewTexture 42 [3, 5, 8]) \<in> set [3, 5, 8]
   \<and> PostMessageSync \<notin> set (snd (snd (getNewTexture 42 [3, 5, 8])))
   \<and> fst (getNewTexture 42 []) = 42
   \<and> PostMessageSync \<in> set (snd (snd (getNewTexture 42 [])))"
proof -
  have v: "getNewTexture 42 [3, 5, 8]
      = (8, [3, 5], [Acquire TexturePoolMutex, Release TexturePoolMutex])"
    by (simp add: getNewTexture_def)
  from getNewTexture_pool_first [of "[3, 5, 8]" 42] getNewTexture_pool_first [of "[]" 42] v
  show ?thesis by simp
qed

subsection \<open>Display lookups\<close>

lemma getPhysicalDisplayId_loop_None:
  "\<forall>(did, token) \<in> set m. token \<noteq> tok \<Longrightarrow> getPhysicalDisplayId_loop m tok = None"
  by (induction m) auto

text \<open>
  C9: a lookup without a match gives the empty result. \<^verbatim>\<open>getDisplayDeviceLocked\<close> returns
  \<^verbatim>\<open>nullptr\<close> for a token that is not a key of \<^verbatim>\<open>mDisplays\<close>; \<^verbatim>\<open>getPhysicalDisplayToken\<close>
  returns \<^verbatim>\<open>nullptr\<close> for an id that is not a key of \<^verbatim>\<open>mPhysicalDisplayTokens\<close>;
  \<^verbatim>\<open>getPhysicalDisplayId\<close> returns the empty optional when no mapped token equals the given
  one; \<^verbatim>\<open>getDefaultDisplayDeviceLocked\<close> returns \<^verbatim>\<open>nullptr\<close> when there is no internal display
  token.
\<close>

theorem lookup_miss_returns_empty:
  "(displayToken \<notin> dom (mDisplays sf) \<longrightarrow> getDisplayDeviceLocked sf displayToken = None)
   \<and> (displayId \<notin> fst ` set (mPhysicalDisplayTokens sf)
        \<longrightarrow> getPhysicalDisplayToken sf displayId = None)
   \<and> ((\<forall>(did, token) \<in> set (mPhysicalDisplayTokens sf). token \<noteq> tok)
        \<longrightarrow> getPhysicalDisplayId sf tok = None)
   \<and> (getInternalDisplayToken sf = None \<longrightarrow> getDefaultDisplayDeviceLocked sf = None)"
proof (intro conjI impI)
  assume "displayToken \<notin> dom (mDisplays sf)"
  then show "getDisplayDeviceLocked sf displayToken = None"
    by (auto simp: getDisplayDeviceLocked_def split: option.splits)
next
  assume "displayId \<notin> fst ` set (mPhysicalDisplayTokens sf)"
  then have "map_of (mPhysicalDisplayTokens sf) displayId = None"
    by (simp add: map_of_eq_None_iff)
  then show "getPhysicalDisplayToken sf displayId = None"
    by (simp add: getPhysicalDisplayToken_def)
next
  assume "\<forall>(did, token) \<in> set (mPhysicalDisplayTokens sf). token \<noteq> tok"
  then show "getPhysicalDisplayId sf tok = None"
    by (simp add: getPhysicalDisplayId_def getPhysicalDisplayId_loop_None)
next
  assume "getInternalDisplayToken sf = None"
  then show "getDefaultDisplayDeviceLocked sf = None"
    by (simp add: getDefaultDisplayDeviceLocked_def)
qed

theorem lookup_miss_returns_empty_witness:
  "Some 2 \<notin> dom (mDisplays one_display_flinger)
   \<and> getDisplayDeviceLocked one_display_flinger (Some 2) = None
   \<and> 200 \<notin> fst ` set (mPhysicalDisplayTokens one_display_flinger)
   \<and> getPhysicalDisplayToken one_display_flinger 200 = None
   \<and> Some 2 \<notin> snd ` set (mPhysicalDisplayTokens one_display_flinger)
   \<and> getPhysicalDisplayId one_display_flinger (Some 2) = None
   \<and> getInternalDisplayToken one_display_flinger = None
   \<and> getDefaultDisplayDeviceLocked one_display_flinger = None"
proof -
  have h1: "Some 2 \<notin> dom (mDisplays one_display_flinger)"
    by (simp add: one_display_flinger_def)
  have h2: "200 \<notin> fst ` set (mPhysicalDisplayTokens one_display_flinger)"
    by (simp add: one_display_flinger_def)
  have h3: "\<forall>(did, token) \<in> set (mPhysicalDisplayTokens one_display_flinger). token \<noteq> Some 2"
    by (simp add: one_display_flinger_def)
  have h4: "getInternalDisplayToken one_display_flinger = None"
    by (simp add: one_display_flinger_def getInternalDisplayToken_def
          getInternalDisplayId_def getPhysicalDisplayToken_def)
  have h5: "Some 2 \<notin> snd ` set (mPhysicalDisplayTokens one_display_flinger)"
    by (simp add: one_display_flinger_def)
  from h1 h2 h3 h4 h5
    lookup_miss_returns_empty [of "Some 2" one_display_flinger 200 "Some 2"]
  show ?thesis by blast
qed

lemma loop_finds_mapped:
  assumes "map_of m k = Some t"
    and "\<And>i j u. (i, u) \<in> set m \<Longrightarrow> (j, u) \<in> set m \<Longrightarrow> i = j"
  shows "getPhysicalDisplayId_loop m t = Some k"
  using assms
proof (induction m)
  case Nil
  then show ?case by simp
next
  case (Cons e m)
  obtain i u where e: "e = (i, u)" by (cases e)
  show ?case
  proof (cases "i = k")
    case True
    with Cons.prems(1) e show ?thesis by simp
  next
    case False
    with Cons.prems(1) e have m: "map_of m k = Some t" by simp
    then have mem: "(k, t) \<in> set m" by (rule map_of_SomeD)
    have "u \<noteq> t"
    proof
      assume "u = t"
      with e mem have "(i, t) \<in> set (e # m)" and "(k, t) \<in> set (e # m)" by simp_all
      then have "i = k" by (rule Cons.prems(2))
      with False show False by simp
    qed
    moreover have "getPhysicalDisplayId_loop m t = Some k"
    proof (rule Cons.IH [OF m])
      fix a b w
      assume "(a, w) \<in> set m" and "(b, w) \<in> set m"
      then have "(a, w) \<in> set (e # m)" and "(b, w) \<in> set (e # m)" by simp_all
      then show "a = b" by (rule Cons.prems(2))
    qed
    ultimately show ?thesis using e by simp
  qed
qed

text \<open>
  C10: for an id that is mapped in \<^verbatim>\<open>mPhysicalDisplayTokens\<close>, when no two ids are mapped
  to the same token, \<^verbatim>\<open>getPhysicalDisplayId\<close> of the token that \<^verbatim>\<open>getPhysicalDisplayToken\<close>
  returns for the id is that id.
\<close>

theorem physical_display_id_roundtrip:
  assumes mapped: "displayId \<in> fst ` set (mPhysicalDisplayTokens sf)"
    and inj: "\<forall>(i, u) \<in> set (mPhysicalDisplayTokens sf).
                \<forall>(j, v) \<in> set (mPhysicalDisplayTokens sf). u = v \<longrightarrow> i = j"
  shows "getPhysicalDisplayId sf (getPhysicalDisplayToken sf displayId) = Some displayId"
proof -
  from mapped obtain t where t: "map_of (mPhysicalDisplayTokens sf) displayId = Some t"
    by (metis map_of_eq_None_iff not_Some_eq)
  then have "getPhysicalDisplayToken sf displayId = t"
    by (simp add: getPhysicalDisplayToken_def)
  moreover have "getPhysicalDisplayId_loop (mPhysicalDisplayTokens sf) t = Some displayId"
  proof (rule loop_finds_mapped [OF t])
    fix i j u
    assume "(i, u) \<in> set (mPhysicalDisplayTokens sf)"
      and "(j, u) \<in> set (mPhysicalDisplayTokens sf)"
    with inj show "i = j" by blast
  qed
  ultimately show ?thesis
    by (simp add: getPhysicalDisplayId_def)
qed

theorem physical_display_id_roundtrip_witness:
  "200 \<in> fst ` set (mPhysicalDisplayTokens two_display_flinger)
   \<and> distinct (map snd (mPhysicalDisplayTokens two_display_flinger))
   \<and> getPhysicalDisplayToken two_display_flinger 200 = Some 2
   \<and> getPhysicalDisplayId two_display_flinger (Some 2) = Some 200"
proof -
  have h1: "200 \<in> fst ` set (mPhysicalDisplayTokens two_display_flinger)"
    by (simp add: two_display_flinger_def)
  have h2: "\<forall>(i, u) \<in> set (mPhysicalDisplayTokens two_display_flinger).
        \<forall>(j, v) \<in> set (mPhysicalDisplayTokens two_display_flinger). u = v \<longrightarrow> i = j"
    by (simp add: two_display_flinger_def)
  have h3: "getPhysicalDisplayToken two_display_flinger 200 = Some 2"
    by (simp add: two_display_flinger_def getPhysicalDisplayToken_def)
  have h4: "distinct (map snd (mPhysicalDisplayTokens two_display_flinger))"
    by (simp add: two_display_flinger_def)
  from physical_display_id_roundtrip [OF h1 h2] h1 h3 h4 show ?thesis by simp
qed

end
